theory Spec2Isabelle
  imports Main
begin

section \<open>The abstract syntax the program consumes\<close>

text \<open>
  The program receives trees of Python's \<^verbatim>\<open>ast\<close> module. Python's nodes are
  dynamically typed, so one datatype holds every node class of the fragment modelled here;
  each constructor lists the node's fields in the order of the class's \<^verbatim>\<open>_fields\<close>
  (fields that never hold a node or a name, such as \<^verbatim>\<open>type_comment\<close>, are left out).
  The expression contexts (\<^verbatim>\<open>Load\<close>, \<^verbatim>\<open>Store\<close>) and the operators are nodes of
  their own, as in Python, and so are children of the node that carries them.
  Of \<^verbatim>\<open>arguments\<close> the positional parameters \<^verbatim>\<open>args\<close> and their
  \<^verbatim>\<open>defaults\<close> are modelled.
\<close>

datatype const_value = CInt int | CStr string | CBool bool | CNone

datatype ast =
    Module "ast list"
  | FunctionDef string ast "ast list" "ast list" "ast option"
  | arguments "ast list" "ast list"
  | arg string "ast option"
  | Assign "ast list" ast
  | Return "ast option"
  | Expr ast
  | IfStmt ast "ast list" "ast list"
  | Pass
  | Name string ast
  | Constant const_value
  | BinOp ast ast ast
  | Subscript ast ast ast
  | Attribute ast string ast
  | Tuple "ast list" ast
  | Call ast "ast list"
  | Load
  | Store
  | Add
  | Sub
  | Mult

text \<open>\<^verbatim>\<open>node.__class__.__name__\<close>.\<close>

fun class_name :: "ast \<Rightarrow> string" where
  "class_name (Module _) = ''Module''"
| "class_name (FunctionDef _ _ _ _ _) = ''FunctionDef''"
| "class_name (arguments _ _) = ''arguments''"
| "class_name (arg _ _) = ''arg''"
| "class_name (Assign _ _) = ''Assign''"
| "class_name (Return _) = ''Return''"
| "class_name (Expr _) = ''Expr''"
| "class_name (IfStmt _ _ _) = ''If''"
| "class_name Pass = ''Pass''"
| "class_name (Name _ _) = ''Name''"
| "class_name (Constant _) = ''Constant''"
| "class_name (BinOp _ _ _) = ''BinOp''"
| "class_name (Subscript _ _ _) = ''Subscript''"
| "class_name (Attribute _ _ _) = ''Attribute''"
| "class_name (Tuple _ _) = ''Tuple''"
| "class_name (Call _ _) = ''Call''"
| "class_name Load = ''Load''"
| "class_name Store = ''Store''"
| "class_name Add = ''Add''"
| "class_name Sub = ''Sub''"
| "class_name Mult = ''Mult''"

text \<open>\<^verbatim>\<open>isinstance(node, ast.FunctionDef)\<close> and \<^verbatim>\<open>isinstance(node, ast.Name)\<close>.\<close>

fun is_FunctionDef :: "ast \<Rightarrow> bool" where
  "is_FunctionDef (FunctionDef _ _ _ _ _) = True"
| "is_FunctionDef _ = False"

fun is_Name :: "ast \<Rightarrow> bool" where
  "is_Name (Name _ _) = True"
| "is_Name _ = False"

fun is_Subscript :: "ast \<Rightarrow> bool" where
  "is_Subscript (Subscript _ _ _) = True"
| "is_Subscript _ = False"


text \<open>An optional field that holds a node contributes it, \<^verbatim>\<open>None\<close> contributes nothing.\<close>

fun opt_node :: "ast option \<Rightarrow> ast list" where
  "opt_node None = []"
| "opt_node (Some n) = [n]"

text \<open>
  \<^verbatim>\<open>ast.iter_child_nodes\<close>: the fields in order; a field that is a node is yielded, a
  field that is a list yields its items.
\<close>

fun iter_child_nodes :: "ast \<Rightarrow> ast list" where
  "iter_child_nodes (Module body) = body"
| "iter_child_nodes (FunctionDef name args body decorator_list returns) =
     args # body @ decorator_list @ opt_node returns"
| "iter_child_nodes (arguments args defaults) = args @ defaults"
| "iter_child_nodes (arg a annotation) = opt_node annotation"
| "iter_child_nodes (Assign targets val) = targets @ [val]"
| "iter_child_nodes (Return val) = opt_node val"
| "iter_child_nodes (Expr val) = [val]"
| "iter_child_nodes (IfStmt test body orelse) = test # body @ orelse"
| "iter_child_nodes Pass = []"
| "iter_child_nodes (Name ident ctx) = [ctx]"
| "iter_child_nodes (Constant c) = []"
| "iter_child_nodes (BinOp left op right) = [left, op, right]"
| "iter_child_nodes (Subscript val slice ctx) = [val, slice, ctx]"
| "iter_child_nodes (Attribute val attr ctx) = [val, ctx]"
| "iter_child_nodes (Tuple elts ctx) = elts @ [ctx]"
| "iter_child_nodes (Call func args) = func # args"
| "iter_child_nodes Load = []"
| "iter_child_nodes Store = []"
| "iter_child_nodes Add = []"
| "iter_child_nodes Sub = []"
| "iter_child_nodes Mult = []"

text \<open>The number of nodes of a tree: the measure of every traversal.\<close>

fun opt_count :: "nat option \<Rightarrow> nat" where
  "opt_count None = 0"
| "opt_count (Some k) = k"

primrec nodes_count :: "ast \<Rightarrow> nat" where
  "nodes_count (Module body) = Suc (sum_list (map nodes_count body))"
| "nodes_count (FunctionDef name args body decorator_list returns) =
     Suc (nodes_count args + sum_list (map nodes_count body)
          + sum_list (map nodes_count decorator_list)
          + opt_count (map_option nodes_count returns))"
| "nodes_count (arguments args defaults) =
     Suc (sum_list (map nodes_count args) + sum_list (map nodes_count defaults))"
| "nodes_count (arg a annotation) = Suc (opt_count (map_option nodes_count annotation))"
| "nodes_count (Assign targets val) = Suc (sum_list (map nodes_count targets) + nodes_count val)"
| "nodes_count (Return val) = Suc (opt_count (map_option nodes_count val))"
| "nodes_count (Expr val) = Suc (nodes_count val)"
| "nodes_count (IfStmt test body orelse) =
     Suc (nodes_count test + sum_list (map nodes_count body) + sum_list (map nodes_count orelse))"
| "nodes_count Pass = Suc 0"
| "nodes_count (Name ident ctx) = Suc (nodes_count ctx)"
| "nodes_count (Constant c) = Suc 0"
| "nodes_count (BinOp left op right) = Suc (nodes_count left + nodes_count op + nodes_count right)"
| "nodes_count (Subscript val slice ctx) =
     Suc (nodes_count val + nodes_count slice + nodes_count ctx)"
| "nodes_count (Attribute val attr ctx) = Suc (nodes_count val + nodes_count ctx)"
| "nodes_count (Tuple elts ctx) = Suc (sum_list (map nodes_count elts) + nodes_count ctx)"
| "nodes_count (Call func args) = Suc (nodes_count func + sum_list (map nodes_count args))"
| "nodes_count Load = Suc 0"
| "nodes_count Store = Suc 0"
| "nodes_count Add = Suc 0"
| "nodes_count Sub = Suc 0"
| "nodes_count Mult = Suc 0"

definition nodes_count_list :: "ast list \<Rightarrow> nat" where
  "nodes_count_list ns = sum_list (map nodes_count ns)"

lemma nodes_count_list_simps [simp]:
  "nodes_count_list [] = 0"
  "nodes_count_list (n # ns) = nodes_count n + nodes_count_list ns"
  "nodes_count_list (ns @ ms) = nodes_count_list ns + nodes_count_list ms"
  by (simp_all add: nodes_count_list_def)

lemma nodes_count_opt_node [simp]:
  "nodes_count_list (opt_node r) = opt_count (map_option nodes_count r)"
  by (cases r) simp_all

lemma nodes_count_children: "nodes_count n = Suc (nodes_count_list (iter_child_nodes n))"
  by (cases n) (simp_all add: nodes_count_list_def [symmetric])

lemma nodes_count_pos [simp]: "0 < nodes_count n"
  by (simp add: nodes_count_children)

section \<open>Finding the function definition\<close>

text \<open>
  \<^verbatim>\<open>ast.walk\<close> keeps a queue that starts with the root; it takes the node at the front,
  appends the node's children at the back and yields the node, until the queue is empty.
  \<open>walk_todo\<close> is the sequence of all nodes the generator yields from a given queue.
\<close>

function walk_todo :: "ast list \<Rightarrow> ast list" where
  "walk_todo [] = []"
| "walk_todo (node # todo) = node # walk_todo (todo @ iter_child_nodes node)"
  by pat_completeness auto
termination
  by (relation "measure nodes_count_list") (simp_all add: nodes_count_children)

definition walk :: "ast \<Rightarrow> ast list" where
  "walk node = walk_todo [node]"

text \<open>
  \<^verbatim>\<open>get_first_function_decl\<close> consumes the generator one node at a time and returns at
  the first \<^verbatim>\<open>FunctionDef\<close>; when the generator is exhausted the function falls off its
  end and returns \<^verbatim>\<open>None\<close>. \<open>first_function_todo\<close> is that loop, on the generator's queue.
\<close>

function first_function_todo :: "ast list \<Rightarrow> ast option" where
  "first_function_todo [] = None"
| "first_function_todo (node # todo) =
     (if is_FunctionDef node then Some node
      else first_function_todo (todo @ iter_child_nodes node))"
  by pat_completeness auto
termination
  by (relation "measure nodes_count_list") (simp_all add: nodes_count_children)

definition get_first_function_decl :: "ast \<Rightarrow> ast option" where
  "get_first_function_decl code = first_function_todo [code]"

text \<open>The nodes of a tree, by structure: the root and the nodes of its children.\<close>

function subnodes :: "ast \<Rightarrow> ast set" where
  "subnodes n = insert n (\<Union>c \<in> set (iter_child_nodes n). subnodes c)"
  by pat_completeness auto
termination
proof (relation "measure nodes_count")
  show "wf (measure nodes_count)" by simp
next
  fix n c assume "c \<in> set (iter_child_nodes n)"
  then have "nodes_count c \<le> nodes_count_list (iter_child_nodes n)"
    unfolding nodes_count_list_def by (simp add: member_le_sum_list)
  then show "(c, n) \<in> measure nodes_count"
    by (simp add: nodes_count_children [of n])
qed

declare subnodes.simps [simp del]

section \<open>Exceptions\<close>

text \<open>
  The exceptions the program raises, each with its message. Where the source formats the
  \<^verbatim>\<open>repr\<close> of a node object into the message, the message stops before it.
  \<^verbatim>\<open>AttributeError\<close> and \<^verbatim>\<open>TypeError\<close> are what Python raises by itself when a tree is
  not shaped as the parser builds it; their messages name the class of the object in
  single quotes.
\<close>

datatype error =
    NotImplementedError string
  | ValueError string
  | AttributeError string
  | TypeError string

definition quoted :: "string \<Rightarrow> string" where
  "quoted name = CHR 0x27 # name @ [CHR 0x27]"

definition no_attribute :: "string \<Rightarrow> string \<Rightarrow> error" where
  "no_attribute cls attr = AttributeError (quoted cls @ '' object has no attribute '' @ quoted attr)"

definition not_iterable :: "string \<Rightarrow> error" where
  "not_iterable cls = TypeError (quoted cls @ '' object is not iterable'')"

section \<open>The type model and the resolution of annotations\<close>

text \<open>The constructors of the Z3 datatype \<^verbatim>\<open>Z3PyValue\<close>, held in \<^verbatim>\<open>Z3PyType\<close>.\<close>

datatype Z3PyValue =
    Z3PyType_int
  | Z3PyType_str
  | Z3PyType_bool
  | Z3PyType_list Z3PyValue
  | Z3PyType_none

fun pytype_to_z3type :: "ast \<Rightarrow> error + Z3PyValue" where
  "pytype_to_z3type (Name ident ctx) =
     (if ident = ''int'' then Inr Z3PyType_int
      else if ident = ''str'' then Inr Z3PyType_str
      else if ident = ''bool'' then Inr Z3PyType_bool
      else if ident = ''list'' then
        Inl (NotImplementedError ''list type without arg not implemented'')
      else if ident = ''None'' then Inr Z3PyType_none
      else Inl (NotImplementedError (''Unimplemented type '' @ ident)))"
| "pytype_to_z3type (Subscript (Name ident c) slice ctx) =
     (if ident = ''List'' then Inl (NotImplementedError ''list type not yet implemented'')
      else Inl (NotImplementedError ''Unimplemented subscript type ''))"
| "pytype_to_z3type (Subscript val slice ctx) =
     Inl (NotImplementedError ''Unimplemented subscript type '')"
| "pytype_to_z3type pytype =
     Inl (ValueError ''The given AST node is not a type annotation: '')"

section \<open>The solver's terms and the visitor's state\<close>

text \<open>
  The program builds Z3 terms with \<^verbatim>\<open>z3.BitVec\<close> only (a named constant of a bit-vector
  sort), sorts with \<^verbatim>\<open>z3.BitVecSort\<close> and one function declaration with
  \<^verbatim>\<open>z3.Function\<close>. A Python value held in the environment or returned by a visitor
  method is \<^verbatim>\<open>None\<close> or such a term.
\<close>

datatype z3sort = BitVecSort nat

datatype z3expr = BitVec string nat


datatype z3func = Function string "z3sort list"

datatype pyval = PyNone | Z3 z3expr

text \<open>A \<^verbatim>\<open>z3.Solver\<close>: the formulas asserted so far and the \<^verbatim>\<open>timeout\<close> parameter.\<close>

record Solver =
  assertions :: "z3expr list"
  timeout :: "nat option"

text \<open>
  The fields of a \<^verbatim>\<open>SolverVisitor\<close> object, and with them the lines printed so far on
  the standard output (the visitor methods print).
\<close>

record SolverVisitor =
  solver :: Solver
  fundecl :: "ast option"
  z3_args :: "z3expr list"
  z3_ret :: "z3expr option"
  z3_func :: "z3func option"
  env :: "string \<rightharpoonup> pyval"
  stdout :: "string list"

text \<open>\<^verbatim>\<open>SolverVisitor.__init__\<close>, in a process that has printed nothing yet.\<close>

definition SolverVisitor_init :: SolverVisitor where
  "SolverVisitor_init =
     \<lparr>solver = \<lparr>assertions = [], timeout = Some 1000\<rparr>,
      fundecl = None, z3_args = [], z3_ret = None, z3_func = None,
      env = Map.empty, stdout = []\<rparr>"

definition print :: "SolverVisitor \<Rightarrow> string \<Rightarrow> SolverVisitor" where
  "print s line = s\<lparr>stdout := stdout s @ [line]\<rparr>"

section \<open>The visitor\<close>

text \<open>
  A method of the visitor either returns a value or raises an exception; in both cases the
  visitor object and the standard output stay as the method left them, so both outcomes
  carry the state.
\<close>

type_synonym 'a outcome = "error \<times> SolverVisitor + 'a \<times> SolverVisitor"

type_synonym loop_outcome = "error \<times> SolverVisitor + SolverVisitor"

text \<open>
  \<^verbatim>\<open>node.args.args\<close> for the \<^verbatim>\<open>args\<close> field of a function definition: the parameter
  list of an \<^verbatim>\<open>arguments\<close> node. Of the other node classes, \<^verbatim>\<open>Call\<close> has a list
  \<^verbatim>\<open>args\<close> too, \<^verbatim>\<open>FunctionDef\<close> has an \<^verbatim>\<open>args\<close> that is a node, over which the loop
  cannot iterate, and the rest have no such attribute.
\<close>

fun attr_args :: "ast \<Rightarrow> error + ast list" where
  "attr_args (arguments args defaults) = Inr args"
| "attr_args (Call func args) = Inr args"
| "attr_args (FunctionDef name args body decorator_list returns) =
     Inl (not_iterable (class_name args))"
| "attr_args n = Inl (no_attribute (class_name n) ''args'')"

text \<open>
  The loop over the parameters (lines 98 to 101): each gets the constant
  \<^verbatim>\<open>z3.BitVec(f"__arg_{arg.arg}", 64)\<close>, appended to \<^verbatim>\<open>z3_args\<close> and bound in
  \<^verbatim>\<open>env\<close> under the parameter's name. The annotation is not read.
\<close>

fun bind_args :: "SolverVisitor \<Rightarrow> ast list \<Rightarrow> loop_outcome" where
  "bind_args s [] = Inr s"
| "bind_args s (arg name annotation # rest) =
     (let const = BitVec (''__arg_'' @ name) 64
      in bind_args (s\<lparr>z3_args := z3_args s @ [const], env := (env s)(name \<mapsto> Z3 const)\<rparr>) rest)"
| "bind_args s (n # rest) = Inl (no_attribute (class_name n) ''arg'', s)"

fun visit_Name :: "SolverVisitor \<Rightarrow> ast \<Rightarrow> pyval outcome" where
  "visit_Name s (Name ident ctx) =
     (let s1 = print s (''name: '' @ ident)
      in case env s1 ident of
           Some v \<Rightarrow> Inr (v, s1)
         | None \<Rightarrow> Inl (ValueError (''Undefined variable '' @ ident), s1))"
| "visit_Name s node = Inl (no_attribute (class_name node) ''id'', s)"

text \<open>
  \<open>NodeVisitor_visit\<close> is \<^verbatim>\<open>ast.NodeVisitor.visit\<close>: it calls the method
  \<^verbatim>\<open>visit_\<close> followed by the node's class name when the visitor has one, else
  \<^verbatim>\<open>generic_visit\<close>. \<open>visit\<close> is the override of lines 87 to 89, which calls it and returns
  \<^verbatim>\<open>None\<close>. \<open>generic_visit\<close> is \<^verbatim>\<open>ast.NodeVisitor.generic_visit\<close>, which calls
  \<^verbatim>\<open>self.visit\<close> on every child in the order of the fields (\<open>generic_visit_loop\<close>) and
  returns \<^verbatim>\<open>None\<close>. \<open>visit_body\<close> is the loop of lines 108 and 109, which calls
  \<^verbatim>\<open>super().visit\<close> on each statement, and \<open>visit_Assign_loop\<close> the loop of lines 117 to
  123 over the targets. An exception ends every loop and every caller, and leaves the
  state as it was when it was raised.
\<close>

function
  NodeVisitor_visit :: "SolverVisitor \<Rightarrow> ast \<Rightarrow> pyval outcome" and
  visit :: "SolverVisitor \<Rightarrow> ast \<Rightarrow> pyval outcome" and
  generic_visit :: "SolverVisitor \<Rightarrow> ast \<Rightarrow> pyval outcome" and
  generic_visit_loop :: "SolverVisitor \<Rightarrow> ast list \<Rightarrow> loop_outcome" and
  visit_FunctionDef :: "SolverVisitor \<Rightarrow> ast \<Rightarrow> pyval outcome" and
  visit_body :: "SolverVisitor \<Rightarrow> ast list \<Rightarrow> loop_outcome" and
  visit_BinOp :: "SolverVisitor \<Rightarrow> ast \<Rightarrow> pyval outcome" and
  visit_Assign :: "SolverVisitor \<Rightarrow> ast \<Rightarrow> pyval outcome" and
  visit_Assign_loop :: "SolverVisitor \<Rightarrow> ast list \<Rightarrow> ast \<Rightarrow> loop_outcome" and
  visit_Return :: "SolverVisitor \<Rightarrow> ast \<Rightarrow> pyval outcome"
where
  "NodeVisitor_visit s node =
     (case node of
        FunctionDef name args body decorator_list returns \<Rightarrow> visit_FunctionDef s node
      | BinOp left op right \<Rightarrow> visit_BinOp s node
      | Assign targets val \<Rightarrow> visit_Assign s node
      | Name ident ctx \<Rightarrow> visit_Name s node
      | Return val \<Rightarrow> visit_Return s node
      | _ \<Rightarrow> generic_visit s node)"

| "visit s node =
     (case NodeVisitor_visit s node of
        Inl raised \<Rightarrow> Inl raised
      | Inr (r, s1) \<Rightarrow> Inr (PyNone, s1))"

| "generic_visit s node =
     (case generic_visit_loop s (iter_child_nodes node) of
        Inl raised \<Rightarrow> Inl raised
      | Inr s1 \<Rightarrow> Inr (PyNone, s1))"

| "generic_visit_loop s [] = Inr s"
| "generic_visit_loop s (item # items) =
     (case visit s item of
        Inl raised \<Rightarrow> Inl raised
      | Inr (r, s1) \<Rightarrow> generic_visit_loop s1 items)"

| "visit_FunctionDef s node =
     (if fundecl s \<noteq> None then
        Inl (ValueError ''Only one function declaration is allowed'', s)
      else
        let s1 = s\<lparr>fundecl := Some node\<rparr> in
        case node of
          FunctionDef name args body decorator_list returns \<Rightarrow>
            (case attr_args args of
               Inl e \<Rightarrow> Inl (e, s1)
             | Inr params \<Rightarrow>
                 (case bind_args s1 params of
                    Inl raised \<Rightarrow> Inl raised
                  | Inr s2 \<Rightarrow>
                      let s3 = s2\<lparr>z3_ret := Some (BitVec ''__ret'' 64)\<rparr>;
                          fun_args = replicate (length (z3_args s3) + 1) (BitVecSort 64);
                          s4 = s3\<lparr>z3_func := Some (Function name fun_args)\<rparr>
                      in (case visit_body s4 body of
                            Inl raised \<Rightarrow> Inl raised
                          | Inr s5 \<Rightarrow> Inr (PyNone, s5))))
        | arguments args defaults \<Rightarrow> Inl (no_attribute ''list'' ''args'', s1)
        | Call func args \<Rightarrow> Inl (no_attribute ''list'' ''args'', s1)
        | _ \<Rightarrow> Inl (no_attribute (class_name node) ''args'', s1))"

| "visit_body s [] = Inr s"
| "visit_body s (stmt # stmts) =
     (case NodeVisitor_visit s stmt of
        Inl raised \<Rightarrow> Inl raised
      | Inr (r, s1) \<Rightarrow> visit_body s1 stmts)"

| "visit_BinOp s node =
     (case node of
        BinOp left op right \<Rightarrow> generic_visit (print s (''binop: '' @ class_name op)) node
      | _ \<Rightarrow> Inl (no_attribute (class_name node) ''op'', s))"

| "visit_Assign s node =
     (case node of
        Assign targets val \<Rightarrow>
          (case visit_Assign_loop s targets val of
             Inl raised \<Rightarrow> Inl raised
           | Inr s1 \<Rightarrow> Inr (PyNone, s1))
      | _ \<Rightarrow> Inl (no_attribute (class_name node) ''targets'', s))"

| "visit_Assign_loop s [] val = Inr s"
| "visit_Assign_loop s (target # targets) val =
     (case target of
        Name ident ctx \<Rightarrow>
          (case visit (print s (''assign: '' @ ident)) val of
             Inl raised \<Rightarrow> Inl raised
           | Inr (r, s1) \<Rightarrow> visit_Assign_loop (s1\<lparr>env := (env s1)(ident \<mapsto> r)\<rparr>) targets val)
      | _ \<Rightarrow> Inl (NotImplementedError ''Unimplemented assignment target '', s))"

| "visit_Return s node = generic_visit (print s ''return'') node"
  by pat_completeness auto

lemma length_le_nodes_count_list: "length ns \<le> nodes_count_list ns"
proof (induction ns)
  case Nil
  show ?case by simp
next
  case (Cons n ns)
  show ?case using Cons nodes_count_children [of n] by simp
qed

text \<open>
  The measure of the traversal: ten times the number of nodes still to visit, plus the
  position of the method in the chain of calls on one node.
\<close>

definition visit_measure ::
  "((SolverVisitor \<times> ast + SolverVisitor \<times> ast) +
    (SolverVisitor \<times> ast + (SolverVisitor \<times> ast list + SolverVisitor \<times> ast)))
   + ((SolverVisitor \<times> ast list + SolverVisitor \<times> ast) +
      (SolverVisitor \<times> ast + (SolverVisitor \<times> ast list \<times> ast + SolverVisitor \<times> ast)))
   \<Rightarrow> nat" where
  "visit_measure =
     case_sum
       (case_sum
          (case_sum (\<lambda>(s, n). 10 * nodes_count n + 2) (\<lambda>(s, n). 10 * nodes_count n + 3))
          (case_sum (\<lambda>(s, n). 10 * nodes_count n)
             (case_sum (\<lambda>(s, ns). 10 * nodes_count_list ns + 4)
                       (\<lambda>(s, n). 10 * nodes_count n + 1))))
       (case_sum
          (case_sum (\<lambda>(s, ns). 10 * nodes_count_list ns + 4) (\<lambda>(s, n). 10 * nodes_count n + 1))
          (case_sum (\<lambda>(s, n). 10 * nodes_count n + 1)
             (case_sum (\<lambda>(s, ts, v). 10 * nodes_count v + 4 + length ts)
                       (\<lambda>(s, n). 10 * nodes_count n + 1))))"

termination NodeVisitor_visit
proof (relation "measure visit_measure")
  show "wf (measure visit_measure)" by simp
qed (simp_all add: visit_measure_def nodes_count_children [of "_ :: ast"] nodes_count_list_def
       order.strict_trans1 [OF length_le_nodes_count_list [unfolded nodes_count_list_def]])

declare NodeVisitor_visit.simps [simp del] visit.simps [simp del] generic_visit.simps [simp del]
  visit_FunctionDef.simps [simp del] visit_BinOp.simps [simp del] visit_Assign.simps [simp del]
  visit_Return.simps [simp del]

section \<open>The program's own inputs\<close>

text \<open>
  The two functions the program's entry point parses, as \<^verbatim>\<open>ast.parse\<close> builds them:
  \<^verbatim>\<open>def f(x: int) -> List[int]: x = 1; y = 2; return x + y\<close> and
  \<^verbatim>\<open>def f(x: int) -> int: return x + 2\<close>.
\<close>

definition CODE1 :: ast where
  "CODE1 =
     FunctionDef ''f'' (arguments [arg ''x'' (Some (Name ''int'' Load))] [])
       [Assign [Name ''x'' Store] (Constant (CInt 1)),
        Assign [Name ''y'' Store] (Constant (CInt 2)),
        Return (Some (BinOp (Name ''x'' Load) Add (Name ''y'' Load)))]
       []
       (Some (Subscript (Name ''List'' Load) (Name ''int'' Load) Load))"

definition CODE2 :: ast where
  "CODE2 =
     FunctionDef ''f'' (arguments [arg ''x'' (Some (Name ''int'' Load))] [])
       [Return (Some (BinOp (Name ''x'' Load) Add (Constant (CInt 2))))]
       []
       (Some (Name ''int'' Load))"

text \<open>
  The visitor after it has visited \<^verbatim>\<open>CODE1\<close>, and after it has visited \<^verbatim>\<open>CODE2\<close>,
  each from its initial state.
\<close>

definition after_CODE1 :: SolverVisitor where
  "after_CODE1 =
     \<lparr>solver = \<lparr>assertions = [], timeout = Some 1000\<rparr>,
      fundecl = Some CODE1,
      z3_args = [BitVec ''__arg_x'' 64],
      z3_ret = Some (BitVec ''__ret'' 64),
      z3_func = Some (Function ''f'' [BitVecSort 64, BitVecSort 64]),
      env = [''x'' \<mapsto> PyNone, ''y'' \<mapsto> PyNone],
      stdout = [''assign: x'', ''assign: y'', ''return'', ''binop: Add'', ''name: x'', ''name: y'']\<rparr>"

definition after_CODE2 :: SolverVisitor where
  "after_CODE2 =
     \<lparr>solver = \<lparr>assertions = [], timeout = Some 1000\<rparr>,
      fundecl = Some CODE2,
      z3_args = [BitVec ''__arg_x'' 64],
      z3_ret = Some (BitVec ''__ret'' 64),
      z3_func = Some (Function ''f'' [BitVecSort 64, BitVecSort 64]),
      env = [''x'' \<mapsto> Z3 (BitVec ''__arg_x'' 64)],
      stdout = [''return'', ''binop: Add'', ''name: x'']\<rparr>"

text \<open>The visitor when the visit of \<^verbatim>\<open>CODE1\<close> enters the body of the function.\<close>

definition CODE1_entered :: SolverVisitor where
  "CODE1_entered =
     \<lparr>solver = \<lparr>assertions = [], timeout = Some 1000\<rparr>,
      fundecl = Some CODE1,
      z3_args = [BitVec ''__arg_x'' 64],
      z3_ret = Some (BitVec ''__ret'' 64),
      z3_func = Some (Function ''f'' [BitVecSort 64, BitVecSort 64]),
      env = [''x'' \<mapsto> Z3 (BitVec ''__arg_x'' 64)],
      stdout = []\<rparr>"

section \<open>An encoding\<close>


text \<open>
  An outcome, and the outcome of a loop, with the lines \<open>out\<close> put before everything the
  state has on the standard output.
\<close>

definition prepend_stdout :: "string list \<Rightarrow> SolverVisitor \<Rightarrow> SolverVisitor" where
  "prepend_stdout out s = s\<lparr>stdout := out @ stdout s\<rparr>"

definition with_stdout :: "string list \<Rightarrow> 'a outcome \<Rightarrow> 'a outcome" where
  "with_stdout out res = map_sum (apsnd (prepend_stdout out)) (apsnd (prepend_stdout out)) res"

definition with_stdout_loop :: "string list \<Rightarrow> loop_outcome \<Rightarrow> loop_outcome" where
  "with_stdout_loop out res = map_sum (apsnd (prepend_stdout out)) (prepend_stdout out) res"

section \<open>What every visit preserves\<close>

text \<open>
  A relation between the state before and the state after that is reflexive, transitive
  and kept by each single update the visitor makes (a print, a binding of a name to the
  \<^verbatim>\<open>None\<close> that \<^verbatim>\<open>visit\<close> returned, the header of a function definition on a visitor
  that has no function yet) holds across every visit that returns.
\<close>

definition visit_invariant :: "(SolverVisitor \<Rightarrow> SolverVisitor \<Rightarrow> bool) \<Rightarrow> bool" where
  "visit_invariant R \<longleftrightarrow>
     (\<forall>s. R s s) \<and> (\<forall>a b c. R a b \<longrightarrow> R b c \<longrightarrow> R a c) \<and> (\<forall>s l. R s (print s l)) \<and>
     (\<forall>s x. R s (s\<lparr>env := (env s)(x \<mapsto> PyNone)\<rparr>)) \<and>
     (\<forall>s n name params s2. fundecl s = None \<longrightarrow>
        bind_args (s\<lparr>fundecl := Some n\<rparr>) params = Inr s2 \<longrightarrow>
        R s (s2\<lparr>z3_ret := Some (BitVec ''__ret'' 64),
                z3_func := Some (Function name
                  (replicate (length (z3_args s2) + 1) (BitVecSort 64)))\<rparr>))"

definition same_solver :: "SolverVisitor \<Rightarrow> SolverVisitor \<Rightarrow> bool" where
  "same_solver a b \<longleftrightarrow> solver b = solver a"

definition env_grows :: "SolverVisitor \<Rightarrow> SolverVisitor \<Rightarrow> bool" where
  "env_grows a b \<longleftrightarrow> dom (env a) \<subseteq> dom (env b)"

definition keeps_function :: "SolverVisitor \<Rightarrow> SolverVisitor \<Rightarrow> bool" where
  "keeps_function a b \<longleftrightarrow>
     (fundecl a \<noteq> None \<longrightarrow>
        fundecl b = fundecl a \<and> z3_args b = z3_args a \<and> z3_ret b = z3_ret a \<and>
        z3_func b = z3_func a)"

definition binds_only_None :: "SolverVisitor \<Rightarrow> SolverVisitor \<Rightarrow> bool" where
  "binds_only_None a b \<longleftrightarrow>
     (fundecl a \<noteq> None \<longrightarrow>
        fundecl b \<noteq> None \<and> (\<forall>x. env b x = env a x \<or> env b x = Some PyNone))"

lemmas visit_induct =
  NodeVisitor_visit_visit_generic_visit_generic_visit_loop_visit_FunctionDef_visit_body_visit_BinOp_visit_Assign_visit_Assign_loop_visit_Return.induct

lemmas visit_simps =
  NodeVisitor_visit.simps visit.simps generic_visit.simps visit_FunctionDef.simps
  visit_BinOp.simps visit_Assign.simps visit_Return.simps print_def Let_def

lemma visit_Name_state: "visit_Name s n = Inr (v, s') \<Longrightarrow> \<exists>l. s' = print s l"
  by (cases n) (auto simp: Let_def split: option.splits)

lemma visit_returns_None: "visit s n = Inr (r, s') \<Longrightarrow> r = PyNone"
  by (auto simp: visit.simps split: sum.splits)


lemma visit_preserves_all:
  assumes inv: "visit_invariant R"
  shows "(\<forall>v s'. NodeVisitor_visit s n = Inr (v, s') \<longrightarrow> R s s')"
    and "(\<forall>v s'. visit s n = Inr (v, s') \<longrightarrow> R s s')"
    and "(\<forall>v s'. generic_visit s n = Inr (v, s') \<longrightarrow> R s s')"
    and "(\<forall>s'. generic_visit_loop s ns = Inr s' \<longrightarrow> R s s')"
    and "(\<forall>v s'. visit_FunctionDef s n = Inr (v, s') \<longrightarrow> R s s')"
    and "(\<forall>s'. visit_body s ns = Inr s' \<longrightarrow> R s s')"
    and "(\<forall>v s'. visit_BinOp s n = Inr (v, s') \<longrightarrow> R s s')"
    and "(\<forall>v s'. visit_Assign s n = Inr (v, s') \<longrightarrow> R s s')"
    and "(\<forall>s'. visit_Assign_loop s ns val = Inr s' \<longrightarrow> R s s')"
    and "(\<forall>v s'. visit_Return s n = Inr (v, s') \<longrightarrow> R s s')"
proof (induction s n and s n and s n and s ns and s n and s ns and s n and s n and s ns val
         and s n rule: visit_induct)
  case (1 s node)
  from inv have pr: "\<And>s l. R s (print s l)" unfolding visit_invariant_def by blast
  show ?case
  proof (cases node)
    case (Name ident ctx)
    show ?thesis using visit_Name_state [of s node] pr
      by (auto simp: NodeVisitor_visit.simps Name simp del: visit_Name.simps)
  qed (use 1 in \<open>simp_all add: NodeVisitor_visit.simps\<close>)
next
  case (2 s node)
  then show ?case by (auto simp: visit.simps split: sum.splits)
next
  case (3 s node)
  then show ?case by (auto simp: generic_visit.simps split: sum.splits)
next
  case (4 s)
  from inv show ?case unfolding visit_invariant_def by simp
next
  case (5 s item items)
  from inv have Rtrans: "\<And>a b c. R a b \<Longrightarrow> R b c \<Longrightarrow> R a c"
    unfolding visit_invariant_def by blast
  show ?case
  proof (intro allI impI)
    fix s' assume a: "generic_visit_loop s (item # items) = Inr s'"
    then obtain r s1 where v: "visit s item = Inr (r, s1)" and l: "generic_visit_loop s1 items = Inr s'"
      by (auto split: sum.splits)
    from 5(1) v have "R s s1" by blast
    moreover from 5(2) [OF v refl] l have "R s1 s'" by blast
    ultimately show "R s s'" by (rule Rtrans)
  qed
next
  case (6 s node)
  from inv have Rtrans: "\<And>a b c. R a b \<Longrightarrow> R b c \<Longrightarrow> R a c"
    and hdr: "\<And>s n name params s2. fundecl s = None \<Longrightarrow>
                bind_args (s\<lparr>fundecl := Some n\<rparr>) params = Inr s2 \<Longrightarrow>
                R s (s2\<lparr>z3_ret := Some (BitVec ''__ret'' 64),
                        z3_func := Some (Function name
                          (replicate (length (z3_args s2) + 1) (BitVecSort 64)))\<rparr>)"
    unfolding visit_invariant_def by blast+
  show ?case
  proof (intro allI impI)
    fix v s' assume a: "visit_FunctionDef s node = Inr (v, s')"
    then have fd: "fundecl s = None" by (auto simp: visit_FunctionDef.simps split: if_splits)
    from a fd obtain name args body ds rs params s2 where
      node: "node = FunctionDef name args body ds rs" and
      at: "attr_args args = Inr params" and
      ba: "bind_args (s\<lparr>fundecl := Some node\<rparr>) params = Inr s2" and
      vb: "visit_body (s2\<lparr>z3_ret := Some (BitVec ''__ret'' 64),
                        z3_func := Some (Function name
                          (replicate (length (z3_args s2) + 1) (BitVecSort 64)))\<rparr>) body = Inr s'"
      by (auto simp: visit_FunctionDef.simps Let_def split: ast.splits sum.splits)
    have "R s (s2\<lparr>z3_ret := Some (BitVec ''__ret'' 64),
                        z3_func := Some (Function name
                          (replicate (length (z3_args s2) + 1) (BitVecSort 64)))\<rparr>)"
      by (rule hdr [OF fd ba])
    moreover have "R (s2\<lparr>z3_ret := Some (BitVec ''__ret'' 64),
                        z3_func := Some (Function name
                          (replicate (length (z3_args s2) + 1) (BitVecSort 64)))\<rparr>) s'"
      using 6 [OF _ refl node at ba refl refl refl] fd vb by simp
    ultimately show "R s s'" by (rule Rtrans)
  qed
next
  case (7 s)
  from inv show ?case unfolding visit_invariant_def by simp
next
  case (8 s stmt stmts)
  from inv have Rtrans: "\<And>a b c. R a b \<Longrightarrow> R b c \<Longrightarrow> R a c"
    unfolding visit_invariant_def by blast
  show ?case
  proof (intro allI impI)
    fix s' assume a: "visit_body s (stmt # stmts) = Inr s'"
    then obtain r s1 where v: "NodeVisitor_visit s stmt = Inr (r, s1)" and l: "visit_body s1 stmts = Inr s'"
      by (auto split: sum.splits)
    from 8(1) v have "R s s1" by blast
    moreover from 8(2) [OF v refl] l have "R s1 s'" by blast
    ultimately show "R s s'" by (rule Rtrans)
  qed
next
  case (9 s node)
  from inv have Rtrans: "\<And>a b c. R a b \<Longrightarrow> R b c \<Longrightarrow> R a c"
    and pr: "\<And>s l. R s (print s l)" unfolding visit_invariant_def by blast+
  show ?case
  proof (cases node)
    case (BinOp l op r)
    show ?thesis using 9 [OF BinOp] pr [of s "''binop: '' @ class_name op"] Rtrans
      by (auto simp: visit_BinOp.simps BinOp)
  qed (simp_all add: visit_BinOp.simps)
next
  case (10 s node)
  show ?case
  proof (cases node)
    case (Assign ts val)
    show ?thesis using 10 [OF Assign]
      by (auto simp: visit_Assign.simps Assign split: sum.splits)
  qed (simp_all add: visit_Assign.simps)
next
  case (11 s val)
  from inv show ?case unfolding visit_invariant_def by simp
next
  case (12 s target targets val)
  from inv have Rtrans: "\<And>a b c. R a b \<Longrightarrow> R b c \<Longrightarrow> R a c"
    and pr: "\<And>s l. R s (print s l)"
    and envu: "\<And>s x. R s (s\<lparr>env := (env s)(x \<mapsto> PyNone)\<rparr>)"
    unfolding visit_invariant_def by blast+
  show ?case
  proof (intro allI impI)
    fix s' assume a: "visit_Assign_loop s (target # targets) val = Inr s'"
    then obtain ident ctx where t: "target = Name ident ctx"
      by (cases target) auto
    from a t obtain r s1 where v: "visit (print s (''assign: '' @ ident)) val = Inr (r, s1)"
      and l: "visit_Assign_loop (s1\<lparr>env := (env s1)(ident \<mapsto> r)\<rparr>) targets val = Inr s'"
      by (auto split: sum.splits)
    from visit_returns_None [OF v] have r: "r = PyNone" .
    have "R s (print s (''assign: '' @ ident))" by (rule pr)
    moreover from 12(1) [OF t] v have "R (print s (''assign: '' @ ident)) s1" by blast
    moreover have "R s1 (s1\<lparr>env := (env s1)(ident \<mapsto> r)\<rparr>)" unfolding r by (rule envu)
    moreover from 12(2) [OF t v refl] l have "R (s1\<lparr>env := (env s1)(ident \<mapsto> r)\<rparr>) s'" by blast
    ultimately show "R s s'" using Rtrans by blast
  qed
next
  case (13 s node)
  from inv have Rtrans: "\<And>a b c. R a b \<Longrightarrow> R b c \<Longrightarrow> R a c"
    and pr: "\<And>s l. R s (print s l)" unfolding visit_invariant_def by blast+
  from 13 show ?case using pr [of s "''return''"] Rtrans
    by (auto simp: visit_Return.simps)
qed


lemma visit_preserves:
  assumes "visit_invariant R"
  shows "NodeVisitor_visit s n = Inr (v, s') \<Longrightarrow> R s s'"
    and "visit s n = Inr (v, s') \<Longrightarrow> R s s'"
    and "generic_visit s n = Inr (v, s') \<Longrightarrow> R s s'"
    and "visit_FunctionDef s n = Inr (v, s') \<Longrightarrow> R s s'"
    and "visit_body s ns = Inr s' \<Longrightarrow> R s s'"
    and "visit_Assign s n = Inr (v, s') \<Longrightarrow> R s s'"
    and "visit_Assign_loop s ns val = Inr s' \<Longrightarrow> R s s'"
    and "visit_Return s n = Inr (v, s') \<Longrightarrow> R s s'"
proof -
  note P = visit_preserves_all [OF assms, rule_format]
  show "NodeVisitor_visit s n = Inr (v, s') \<Longrightarrow> R s s'" by (rule P(1))
  show "visit s n = Inr (v, s') \<Longrightarrow> R s s'" by (rule P(2))
  show "generic_visit s n = Inr (v, s') \<Longrightarrow> R s s'" by (rule P(3))
  show "visit_FunctionDef s n = Inr (v, s') \<Longrightarrow> R s s'" by (rule P(5))
  show "visit_body s ns = Inr s' \<Longrightarrow> R s s'" by (rule P(6))
  show "visit_Assign s n = Inr (v, s') \<Longrightarrow> R s s'" by (rule P(8))
  show "visit_Assign_loop s ns val = Inr s' \<Longrightarrow> R s s'" by (rule P(9))
  show "visit_Return s n = Inr (v, s') \<Longrightarrow> R s s'" by (rule P(10))
qed

subsection \<open>The loop over the parameters\<close>

lemma bind_args_frame:
  "bind_args s ps = Inr s' \<Longrightarrow>
   solver s' = solver s \<and> fundecl s' = fundecl s \<and> z3_ret s' = z3_ret s \<and>
   z3_func s' = z3_func s \<and> stdout s' = stdout s \<and> dom (env s) \<subseteq> dom (env s') \<and>
   set (z3_args s) \<subseteq> set (z3_args s') \<and> length (z3_args s') = length (z3_args s) + length ps"
proof (induction s ps rule: bind_args.induct)
  case (1 s)
  then show ?case by simp
next
  case (2 s name annotation rest)
  let ?s1 = "s\<lparr>z3_args := z3_args s @ [BitVec (''__arg_'' @ name) 64],
      env := (env s)(name \<mapsto> Z3 (BitVec (''__arg_'' @ name) 64))\<rparr>"
  from "2.prems" have b: "bind_args ?s1 rest = Inr s'"
    by (simp add: Let_def)
  note ih = "2.IH" [OF refl b]
  have "dom (env s) \<subseteq> dom (env ?s1)" by (auto simp: dom_def)
  with ih have d: "dom (env s) \<subseteq> dom (env s')" by blast
  have "set (z3_args s) \<subseteq> set (z3_args ?s1)" by auto
  with ih have z: "set (z3_args s) \<subseteq> set (z3_args s')" by blast
  from ih have "solver s' = solver s \<and> fundecl s' = fundecl s \<and> z3_ret s' = z3_ret s \<and>
   z3_func s' = z3_func s \<and> stdout s' = stdout s \<and>
   length (z3_args s') = length (z3_args s) + length (arg name annotation # rest)"
    by simp
  with d z show ?case by simp
qed simp_all




subsection \<open>What the visits keep\<close>

lemma same_solver_invariant: "visit_invariant same_solver"
  unfolding visit_invariant_def same_solver_def
  using bind_args_frame by (fastforce simp: print_def)

lemma env_grows_invariant: "visit_invariant env_grows"
  unfolding visit_invariant_def env_grows_def
proof (intro conjI allI impI)
  fix a b c :: SolverVisitor
  assume "dom (env a) \<subseteq> dom (env b)" and "dom (env b) \<subseteq> dom (env c)"
  then show "dom (env a) \<subseteq> dom (env c)" by (rule subset_trans)
next
  fix s :: SolverVisitor and n name params s2
  assume "bind_args (s\<lparr>fundecl := Some n\<rparr>) params = Inr s2"
  from bind_args_frame [OF this]
  show "dom (env s) \<subseteq> dom (env (s2\<lparr>z3_ret := Some (BitVec ''__ret'' 64),
                z3_func := Some (Function name
                  (replicate (length (z3_args s2) + 1) (BitVecSort 64)))\<rparr>))"
    by simp
qed (auto simp: print_def)

lemma keeps_function_invariant: "visit_invariant keeps_function"
  unfolding visit_invariant_def keeps_function_def by (auto simp: print_def)

lemma binds_only_None_invariant: "visit_invariant binds_only_None"
  unfolding visit_invariant_def binds_only_None_def
proof (intro conjI allI impI)
  fix a b c :: SolverVisitor and x
  assume ab: "fundecl a \<noteq> None \<longrightarrow> fundecl b \<noteq> None \<and> (\<forall>x. env b x = env a x \<or> env b x = Some PyNone)"
    and bc: "fundecl b \<noteq> None \<longrightarrow> fundecl c \<noteq> None \<and> (\<forall>x. env c x = env b x \<or> env c x = Some PyNone)"
    and a: "fundecl a \<noteq> None"
  from ab a have b: "fundecl b \<noteq> None" and eb: "env b x = env a x \<or> env b x = Some PyNone" by simp_all
  from bc b have c: "fundecl c \<noteq> None" and ec: "env c x = env b x \<or> env c x = Some PyNone" by simp_all
  from c show "fundecl c \<noteq> None" .
  from eb ec show "env c x = env a x \<or> env c x = Some PyNone" by auto
qed (auto simp: print_def)

lemmas visit_solver = visit_preserves [OF same_solver_invariant, unfolded same_solver_def]
lemmas visit_dom_env = visit_preserves [OF env_grows_invariant, unfolded env_grows_def]
lemmas visit_keeps_function = visit_preserves [OF keeps_function_invariant]
lemmas visit_binds_only_None = visit_preserves [OF binds_only_None_invariant]


subsection \<open>What was printed before does not matter\<close>

lemma prepend_stdout_fields [simp]:
  "solver (prepend_stdout out s) = solver s"
  "fundecl (prepend_stdout out s) = fundecl s"
  "z3_args (prepend_stdout out s) = z3_args s"
  "z3_ret (prepend_stdout out s) = z3_ret s"
  "z3_func (prepend_stdout out s) = z3_func s"
  "env (prepend_stdout out s) = env s"
  "stdout (prepend_stdout out s) = out @ stdout s"
  by (simp_all add: prepend_stdout_def)


lemma with_stdout_simps [simp]:
  "with_stdout out (Inl (e, s)) = Inl (e, prepend_stdout out s)"
  "with_stdout out (Inr (r, s)) = Inr (r, prepend_stdout out s)"
  "with_stdout_loop out (Inl (e, s)) = Inl (e, prepend_stdout out s)"
  "with_stdout_loop out (Inr s) = Inr (prepend_stdout out s)"
  by (simp_all add: with_stdout_def with_stdout_loop_def)






section \<open>The first function definition of a tree\<close>

lemma first_function_todo_find:
  "first_function_todo todo = find is_FunctionDef (walk_todo todo)"
  by (induction todo rule: walk_todo.induct) simp_all

lemma subnodes_unfold: "subnodes n = insert n (\<Union>c \<in> set (iter_child_nodes n). subnodes c)"
  by (rule subnodes.simps)

lemma set_walk_todo: "set (walk_todo todo) = (\<Union>n \<in> set todo. subnodes n)"
proof (induction todo rule: walk_todo.induct)
  case 1
  show ?case by simp
next
  case (2 node todo)
  have "set (walk_todo (node # todo)) = insert node (set (walk_todo (todo @ iter_child_nodes node)))"
    by simp
  also have "\<dots> = insert node ((\<Union>n \<in> set todo. subnodes n) \<union>
                       (\<Union>c \<in> set (iter_child_nodes node). subnodes c))"
    using 2 by simp
  also have "\<dots> = subnodes node \<union> (\<Union>n \<in> set todo. subnodes n)"
    using subnodes_unfold [of node] by auto
  finally show ?case by simp
qed

text \<open>
  Claim C10. For every tree, \<^verbatim>\<open>get_first_function_decl\<close> returns the first function
  definition in the order in which \<^verbatim>\<open>ast.walk\<close> yields the nodes of the tree; the walk
  yields exactly the nodes of the tree, and the result is \<^verbatim>\<open>None\<close>, not a failure,
  exactly when no node of the tree is a function definition.
\<close>

theorem get_first_function_decl_first:
  "get_first_function_decl code = find is_FunctionDef (walk code)
   \<and> set (walk code) = subnodes code
   \<and> (get_first_function_decl code = None \<longleftrightarrow> (\<forall>n \<in> subnodes code. \<not> is_FunctionDef n))"
proof -
  have a: "get_first_function_decl code = find is_FunctionDef (walk code)"
    by (simp add: get_first_function_decl_def walk_def first_function_todo_find)
  have b: "set (walk code) = subnodes code"
    unfolding walk_def set_walk_todo by simp
  have "get_first_function_decl code = None \<longleftrightarrow> (\<forall>n \<in> set (walk code). \<not> is_FunctionDef n)"
    unfolding a by (auto simp: find_None_iff)
  with a b show ?thesis by simp
qed

theorem get_first_function_decl_first_witness:
  "get_first_function_decl (Module [Expr (Constant (CInt 1)), CODE2]) = Some CODE2
   \<and> get_first_function_decl (Module [Pass]) = None"
proof -
  have "get_first_function_decl (Module [Expr (Constant (CInt 1)), CODE2])
          = find is_FunctionDef (walk (Module [Expr (Constant (CInt 1)), CODE2]))"
    using get_first_function_decl_first [of "Module [Expr (Constant (CInt 1)), CODE2]"] by blast
  also have "\<dots> = Some CODE2"
    by (simp add: walk_def CODE2_def)
  finally have a: "get_first_function_decl (Module [Expr (Constant (CInt 1)), CODE2]) = Some CODE2" .
  have "\<forall>n \<in> subnodes (Module [Pass]). \<not> is_FunctionDef n"
    by (simp add: subnodes_unfold [of "Module [Pass]"] subnodes_unfold [of Pass])
  then have "get_first_function_decl (Module [Pass]) = None"
    using get_first_function_decl_first [of "Module [Pass]"] by blast
  with a show ?thesis by simp
qed


section \<open>The resolution of annotations, names and assignment targets\<close>

subsection \<open>Annotations\<close>

lemma pytype_to_z3type_Name:
  "pytype_to_z3type (Name ident ctx) = Inr t \<longleftrightarrow>
     ident = ''int'' \<and> t = Z3PyType_int \<or> ident = ''str'' \<and> t = Z3PyType_str \<or>
     ident = ''bool'' \<and> t = Z3PyType_bool \<or> ident = ''None'' \<and> t = Z3PyType_none"
  by auto

lemma pytype_to_z3type_Subscript:
  "\<exists>msg. pytype_to_z3type (Subscript val slice ctx) = Inl (NotImplementedError msg)"
  by (cases val) simp_all

lemma pytype_to_z3type_other:
  "\<not> is_Name a \<Longrightarrow> \<not> is_Subscript a \<Longrightarrow>
   pytype_to_z3type a = Inl (ValueError ''The given AST node is not a type annotation: '')"
  by (cases a) simp_all

text \<open>
  Claim C5 says that every annotation outside the closed set fails with the
  unsupported-type error and never with a generic one. The annotation \<^verbatim>\<open>typing.List\<close>
  is an attribute node, neither a name nor a subscript: resolving it raises
  \<^verbatim>\<open>ValueError\<close>, not \<^verbatim>\<open>NotImplementedError\<close>.
\<close>

theorem pytype_to_z3type_value_error_counterexample:
  "pytype_to_z3type (Attribute (Name ''typing'' Load) ''List'' Load) =
     Inl (ValueError ''The given AST node is not a type annotation: '')"
  by simp

text \<open>
  Claim C5, as the code has it. Resolution succeeds on the names \<^verbatim>\<open>int\<close>,
  \<^verbatim>\<open>str\<close>, \<^verbatim>\<open>bool\<close> and \<^verbatim>\<open>None\<close> and on nothing else, so it never defaults.
  Every other name, the bare \<^verbatim>\<open>list\<close> among them, and every subscript fails with
  \<^verbatim>\<open>NotImplementedError\<close>, the unsupported-type error; a node that is neither a name nor
  a subscript fails with \<^verbatim>\<open>ValueError\<close>.
\<close>

theorem pytype_to_z3type_failures:
  "(pytype_to_z3type a = Inr t \<longleftrightarrow>
      (\<exists>ctx. a = Name ''int'' ctx \<and> t = Z3PyType_int \<or> a = Name ''str'' ctx \<and> t = Z3PyType_str \<or>
             a = Name ''bool'' ctx \<and> t = Z3PyType_bool \<or> a = Name ''None'' ctx \<and> t = Z3PyType_none))
   \<and> (is_Name a \<or> is_Subscript a \<longrightarrow>
        (\<forall>e. pytype_to_z3type a = Inl e \<longrightarrow> (\<exists>msg. e = NotImplementedError msg)))
   \<and> (\<not> is_Name a \<and> \<not> is_Subscript a \<longrightarrow>
        pytype_to_z3type a = Inl (ValueError ''The given AST node is not a type annotation: ''))
   \<and> pytype_to_z3type (Name ''list'' c) =
        Inl (NotImplementedError ''list type without arg not implemented'')"
proof (intro conjI)
  show "pytype_to_z3type a = Inr t \<longleftrightarrow>
      (\<exists>ctx. a = Name ''int'' ctx \<and> t = Z3PyType_int \<or> a = Name ''str'' ctx \<and> t = Z3PyType_str \<or>
             a = Name ''bool'' ctx \<and> t = Z3PyType_bool \<or> a = Name ''None'' ctx \<and> t = Z3PyType_none)"
  proof (cases a)
    case (Name ident ctx)
    then show ?thesis using pytype_to_z3type_Name [of ident ctx t] by auto
  next
    case (Subscript v sl ctx)
    then show ?thesis using pytype_to_z3type_Subscript [of v sl ctx] by auto
  qed simp_all
  show "is_Name a \<or> is_Subscript a \<longrightarrow>
        (\<forall>e. pytype_to_z3type a = Inl e \<longrightarrow> (\<exists>msg. e = NotImplementedError msg))"
  proof (cases a)
    case (Name ident ctx)
    then show ?thesis by (auto split: if_splits)
  next
    case (Subscript v sl ctx)
    then show ?thesis using pytype_to_z3type_Subscript [of v sl ctx] by auto
  qed simp_all
  show "\<not> is_Name a \<and> \<not> is_Subscript a \<longrightarrow>
        pytype_to_z3type a = Inl (ValueError ''The given AST node is not a type annotation: '')"
    using pytype_to_z3type_other by blast
  show "pytype_to_z3type (Name ''list'' c) =
        Inl (NotImplementedError ''list type without arg not implemented'')"
    by simp
qed

theorem pytype_to_z3type_failures_witness:
  "pytype_to_z3type (Name ''float'' Load) = Inl (NotImplementedError ''Unimplemented type float'')
   \<and> pytype_to_z3type (Constant (CStr ''int'')) =
       Inl (ValueError ''The given AST node is not a type annotation: '')
   \<and> pytype_to_z3type (Name ''int'' Load) = Inr Z3PyType_int"
proof -
  have a: "pytype_to_z3type (Name ''float'' Load) = Inl (NotImplementedError ''Unimplemented type float'')"
    by simp
  have "\<not> is_Name (Constant (CStr ''int'')) \<and> \<not> is_Subscript (Constant (CStr ''int''))"
    by simp
  then have b: "pytype_to_z3type (Constant (CStr ''int'')) =
       Inl (ValueError ''The given AST node is not a type annotation: '')"
    using pytype_to_z3type_failures [of "Constant (CStr ''int'')"] by blast
  have c: "pytype_to_z3type (Name ''int'' Load) = Inr Z3PyType_int"
    using pytype_to_z3type_failures [of "Name ''int'' Load" Z3PyType_int] by blast
  from a b c show ?thesis by simp
qed

text \<open>
  Claim C6 says that \<^verbatim>\<open>List[int]\<close> resolves to the list sort over \<^verbatim>\<open>int\<close>.
  The code raises \<^verbatim>\<open>NotImplementedError\<close> on it.
\<close>

theorem pytype_to_z3type_List_int_counterexample:
  "pytype_to_z3type (Subscript (Name ''List'' Load) (Name ''int'' Load) Load) =
     Inl (NotImplementedError ''list type not yet implemented'')
   \<and> pytype_to_z3type (Subscript (Name ''List'' Load) (Name ''int'' Load) Load) \<noteq>
     Inr (Z3PyType_list Z3PyType_int)"
  by simp

text \<open>
  Claim C6, as the code has it. Resolving a subscript of \<^verbatim>\<open>List\<close>, whatever the
  element annotation, fails with \<^verbatim>\<open>NotImplementedError\<close> and the message that the list
  type is not yet implemented; no annotation at all resolves to a list sort.
\<close>

theorem pytype_to_z3type_no_list:
  "pytype_to_z3type (Subscript (Name ''List'' c) slice ctx) =
     Inl (NotImplementedError ''list type not yet implemented'')
   \<and> pytype_to_z3type a \<noteq> Inr (Z3PyType_list t)"
proof
  show "pytype_to_z3type (Subscript (Name ''List'' c) slice ctx) =
     Inl (NotImplementedError ''list type not yet implemented'')" by simp
  show "pytype_to_z3type a \<noteq> Inr (Z3PyType_list t)"
  proof (cases a)
    case (Name ident ctx)
    then show ?thesis using pytype_to_z3type_Name [of ident ctx "Z3PyType_list t"] by auto
  next
    case (Subscript v sl ctx)
    then show ?thesis using pytype_to_z3type_Subscript [of v sl ctx] by auto
  qed simp_all
qed


subsection \<open>Names\<close>

text \<open>
  Claim C7 says that a reference to a bound name resolves to the name's current symbolic
  constant. After the visit of \<^verbatim>\<open>CODE2\<close> the environment binds \<^verbatim>\<open>x\<close> to the constant
  \<^verbatim>\<open>__arg_x\<close>; evaluating the reference \<^verbatim>\<open>x\<close> with \<^verbatim>\<open>visit\<close>, through which the
  encoder reaches every name, yields \<^verbatim>\<open>None\<close>.
\<close>

theorem visit_Name_value_dropped_counterexample:
  "env after_CODE2 ''x'' = Some (Z3 (BitVec ''__arg_x'' 64))
   \<and> visit after_CODE2 (Name ''x'' Load) =
       Inr (PyNone, after_CODE2\<lparr>stdout := [''return'', ''binop: Add'', ''name: x'', ''name: x'']\<rparr>)"
  by (simp add: visit_simps after_CODE2_def)

text \<open>
  Claim C7, as the code has it. For a name bound in the environment,
  \<^verbatim>\<open>visit_Name\<close> and the dispatch that reaches it return the value the environment holds
  for the name and change nothing but the standard output, while \<^verbatim>\<open>visit\<close>, like every
  \<^verbatim>\<open>visit\<close> that returns, returns \<^verbatim>\<open>None\<close> in place of that value. For an unbound name
  all three fail with the \<^verbatim>\<open>ValueError\<close> that names the undefined variable.
\<close>

theorem visit_Name_resolves:
  "(env s ident = Some v \<longrightarrow>
      visit_Name s (Name ident ctx) = Inr (v, print s (''name: '' @ ident))
      \<and> NodeVisitor_visit s (Name ident ctx) = Inr (v, print s (''name: '' @ ident))
      \<and> visit s (Name ident ctx) = Inr (PyNone, print s (''name: '' @ ident)))
   \<and> (env s ident = None \<longrightarrow>
      visit_Name s (Name ident ctx) =
        Inl (ValueError (''Undefined variable '' @ ident), print s (''name: '' @ ident))
      \<and> NodeVisitor_visit s (Name ident ctx) =
        Inl (ValueError (''Undefined variable '' @ ident), print s (''name: '' @ ident))
      \<and> visit s (Name ident ctx) =
        Inl (ValueError (''Undefined variable '' @ ident), print s (''name: '' @ ident)))
   \<and> (visit s n = Inr (r, s') \<longrightarrow> r = PyNone)"
  using visit_returns_None [of s n r s']
  by (simp add: NodeVisitor_visit.simps visit.simps print_def Let_def)

theorem visit_Name_resolves_witness:
  "visit_Name after_CODE2 (Name ''x'' Load) =
     Inr (Z3 (BitVec ''__arg_x'' 64), print after_CODE2 ''name: x'')
   \<and> visit after_CODE2 (Name ''x'' Load) = Inr (PyNone, print after_CODE2 ''name: x'')
   \<and> visit SolverVisitor_init (Name ''y'' Load) =
       Inl (ValueError ''Undefined variable y'', print SolverVisitor_init ''name: y'')
   \<and> visit SolverVisitor_init
       (FunctionDef ''f'' (arguments [arg ''x'' None] []) [Return (Some (Name ''y'' Load))] [] None) =
       Inl (ValueError ''Undefined variable y'',
         \<lparr>solver = \<lparr>assertions = [], timeout = Some 1000\<rparr>,
          fundecl = Some (FunctionDef ''f'' (arguments [arg ''x'' None] [])
                            [Return (Some (Name ''y'' Load))] [] None),
          z3_args = [BitVec ''__arg_x'' 64],
          z3_ret = Some (BitVec ''__ret'' 64),
          z3_func = Some (Function ''f'' [BitVecSort 64, BitVecSort 64]),
          env = [''x'' \<mapsto> Z3 (BitVec ''__arg_x'' 64)],
          stdout = [''return'', ''name: y'']\<rparr>)"
proof -
  have a: "env after_CODE2 ''x'' = Some (Z3 (BitVec ''__arg_x'' 64))"
    by (simp add: after_CODE2_def)
  have b: "env SolverVisitor_init ''y'' = None" by (simp add: SolverVisitor_init_def)
  have c: "visit SolverVisitor_init
       (FunctionDef ''f'' (arguments [arg ''x'' None] []) [Return (Some (Name ''y'' Load))] [] None) =
       Inl (ValueError ''Undefined variable y'',
         \<lparr>solver = \<lparr>assertions = [], timeout = Some 1000\<rparr>,
          fundecl = Some (FunctionDef ''f'' (arguments [arg ''x'' None] [])
                            [Return (Some (Name ''y'' Load))] [] None),
          z3_args = [BitVec ''__arg_x'' 64],
          z3_ret = Some (BitVec ''__ret'' 64),
          z3_func = Some (Function ''f'' [BitVecSort 64, BitVecSort 64]),
          env = [''x'' \<mapsto> Z3 (BitVec ''__arg_x'' 64)],
          stdout = [''return'', ''name: y'']\<rparr>)"
    by (simp add: visit_simps SolverVisitor_init_def)
  from visit_Name_resolves [of after_CODE2 "''x''" "Z3 (BitVec ''__arg_x'' 64)" Load] a
  have 1: "visit_Name after_CODE2 (Name ''x'' Load) =
     Inr (Z3 (BitVec ''__arg_x'' 64), print after_CODE2 ''name: x'')
   \<and> visit after_CODE2 (Name ''x'' Load) = Inr (PyNone, print after_CODE2 ''name: x'')"
    by simp
  from visit_Name_resolves [of SolverVisitor_init "''y''" PyNone Load] b
  have 2: "visit SolverVisitor_init (Name ''y'' Load) =
       Inl (ValueError ''Undefined variable y'', print SolverVisitor_init ''name: y'')"
    by simp
  from 1 2 c show ?thesis by simp
qed

subsection \<open>Assignment targets\<close>

text \<open>
  Claim C8 says that an assignment whose target is anything other than a single bare name
  fails with the unsupported-construct error rather than being encoded. The assignment
  \<^verbatim>\<open>x = a.b = y\<close> fails with \<^verbatim>\<open>ValueError\<close> when \<^verbatim>\<open>y\<close> is unbound; when \<^verbatim>\<open>y\<close> is
  bound it fails with \<^verbatim>\<open>NotImplementedError\<close> only after \<^verbatim>\<open>x\<close> has been bound; and
  \<^verbatim>\<open>x = z = y\<close>, with two bare names, is encoded.
\<close>

theorem visit_Assign_later_target_counterexample:
  "visit_Assign SolverVisitor_init
     (Assign [Name ''x'' Store, Attribute (Name ''a'' Load) ''b'' Store] (Name ''y'' Load)) =
     Inl (ValueError ''Undefined variable y'',
          SolverVisitor_init\<lparr>stdout := [''assign: x'', ''name: y'']\<rparr>)
   \<and> visit_Assign (SolverVisitor_init\<lparr>env := [''y'' \<mapsto> Z3 (BitVec ''__arg_y'' 64)]\<rparr>)
     (Assign [Name ''x'' Store, Attribute (Name ''a'' Load) ''b'' Store] (Name ''y'' Load)) =
     Inl (NotImplementedError ''Unimplemented assignment target '',
          SolverVisitor_init\<lparr>env := [''y'' \<mapsto> Z3 (BitVec ''__arg_y'' 64), ''x'' \<mapsto> PyNone],
                              stdout := [''assign: x'', ''name: y'']\<rparr>)
   \<and> visit_Assign (SolverVisitor_init\<lparr>env := [''y'' \<mapsto> Z3 (BitVec ''__arg_y'' 64)]\<rparr>)
     (Assign [Name ''x'' Store, Name ''z'' Store] (Name ''y'' Load)) =
     Inr (PyNone,
          SolverVisitor_init\<lparr>env := [''y'' \<mapsto> Z3 (BitVec ''__arg_y'' 64), ''x'' \<mapsto> PyNone,
                                      ''z'' \<mapsto> PyNone],
                              stdout := [''assign: x'', ''name: y'', ''assign: z'', ''name: y'']\<rparr>)"
  by (simp add: visit_simps SolverVisitor_init_def)

lemma visit_Assign_loop_append:
  "visit_Assign_loop s (names @ rest) val =
     (case visit_Assign_loop s names val of
        Inl raised \<Rightarrow> Inl raised
      | Inr s1 \<Rightarrow> visit_Assign_loop s1 rest val)"
proof (induction names arbitrary: s)
  case Nil
  show ?case by simp
next
  case (Cons t ts)
  show ?case
  proof (cases t)
    case (Name ident ctx)
    show ?thesis
    proof (cases "visit (print s (''assign: '' @ ident)) val")
      case (Inl raised)
      then show ?thesis by (simp add: Name)
    next
      case (Inr p)
      obtain r s1 where p: "p = (r, s1)" by (cases p)
      from Cons.IH [of "s1\<lparr>env := (env s1)(ident \<mapsto> r)\<rparr>"] Inr p show ?thesis
        by (simp add: Name)
    qed
  qed simp_all
qed

lemma visit_Assign_loop_raises:
  "\<forall>t \<in> set names. is_Name t \<Longrightarrow> visit_Assign_loop s names val = Inl (e, s1) \<Longrightarrow>
   \<exists>s0. visit s0 val = Inl (e, s1)"
proof (induction names arbitrary: s)
  case Nil
  then show ?case by simp
next
  case (Cons t ts)
  from Cons.prems(1) obtain ident ctx where t: "t = Name ident ctx"
    by (cases t) auto
  show ?case
  proof (cases "visit (print s (''assign: '' @ ident)) val")
    case (Inl raised)
    with Cons.prems(2) t show ?thesis by auto
  next
    case (Inr p)
    obtain r s2 where p: "p = (r, s2)" by (cases p)
    from Cons.prems Inr p t
    have "visit_Assign_loop (s2\<lparr>env := (env s2)(ident \<mapsto> r)\<rparr>) ts val = Inl (e, s1)"
      and "\<forall>t \<in> set ts. is_Name t" by simp_all
    from Cons.IH [OF this(2) this(1)] show ?thesis .
  qed
qed

lemma visit_Assign_loop_names:
  "visit_Assign_loop s targets val = Inr s' \<Longrightarrow> \<forall>t \<in> set targets. is_Name t"
proof (induction targets arbitrary: s)
  case Nil
  show ?case by simp
next
  case (Cons t ts)
  from Cons.prems obtain ident ctx where t: "t = Name ident ctx"
    by (cases t) auto
  from Cons.prems t obtain r s1 where
    l: "visit_Assign_loop (s1\<lparr>env := (env s1)(ident \<mapsto> r)\<rparr>) ts val = Inr s'"
    by (auto split: sum.splits)
  from Cons.IH [OF l] t show ?case by simp
qed

text \<open>
  Claim C8, as the code has it. The targets are taken in order. An assignment whose first
  target is not a bare name fails with \<^verbatim>\<open>NotImplementedError\<close> and leaves the visitor
  as it was. When bare names come before the first target that is not one, the assignment
  does to them what it does to an assignment to these names alone: if that fails, it fails
  in the same way, else it fails with \<^verbatim>\<open>NotImplementedError\<close> in the state in which
  these names are bound. An assignment with a target that is not a bare name never
  succeeds, and one whose targets are all bare names fails only where a visit of the
  right-hand side fails.
\<close>

theorem visit_Assign_non_name_target:
  "(\<not> is_Name target \<longrightarrow>
      visit_Assign s (Assign (target # targets) val) =
        Inl (NotImplementedError ''Unimplemented assignment target '', s)
      \<and> NodeVisitor_visit s (Assign (target # targets) val) =
        Inl (NotImplementedError ''Unimplemented assignment target '', s))
   \<and> ((\<forall>n \<in> set names. is_Name n) \<and> \<not> is_Name target \<longrightarrow>
      visit_Assign s (Assign (names @ target # targets) val) =
        (case visit_Assign s (Assign names val) of
           Inl raised \<Rightarrow> Inl raised
         | Inr (r, s1) \<Rightarrow> Inl (NotImplementedError ''Unimplemented assignment target '', s1)))
   \<and> ((\<exists>t \<in> set targets. \<not> is_Name t) \<longrightarrow> isl (visit_Assign s (Assign targets val)))
   \<and> ((\<forall>t \<in> set targets. is_Name t) \<longrightarrow>
      (\<forall>e s1. visit_Assign s (Assign targets val) = Inl (e, s1) \<longrightarrow>
         (\<exists>s0. visit s0 val = Inl (e, s1))))"
proof (intro conjI impI allI)
  assume t: "\<not> is_Name target"
  then show a: "visit_Assign s (Assign (target # targets) val) =
        Inl (NotImplementedError ''Unimplemented assignment target '', s)"
    by (cases target) (simp_all add: visit_Assign.simps)
  then show "NodeVisitor_visit s (Assign (target # targets) val) =
        Inl (NotImplementedError ''Unimplemented assignment target '', s)"
    by (simp add: NodeVisitor_visit.simps)
next
  assume "(\<forall>n \<in> set names. is_Name n) \<and> \<not> is_Name target"
  then have t: "\<not> is_Name target" by simp
  have h: "visit_Assign_loop s1 (target # targets) val =
             Inl (NotImplementedError ''Unimplemented assignment target '', s1)" for s1
    using t by (cases target) simp_all
  show "visit_Assign s (Assign (names @ target # targets) val) =
        (case visit_Assign s (Assign names val) of
           Inl raised \<Rightarrow> Inl raised
         | Inr (r, s1) \<Rightarrow> Inl (NotImplementedError ''Unimplemented assignment target '', s1))"
    by (cases "visit_Assign_loop s names val")
       (simp_all add: visit_Assign.simps visit_Assign_loop_append [of s names] h
          del: visit_Assign_loop.simps)
next
  assume "\<exists>t \<in> set targets. \<not> is_Name t"
  then have "\<not> (\<forall>t \<in> set targets. is_Name t)" by simp
  with visit_Assign_loop_names [of s targets val]
  have "isl (visit_Assign_loop s targets val)"
    by (cases "visit_Assign_loop s targets val") auto
  then show "isl (visit_Assign s (Assign targets val))"
    by (cases "visit_Assign_loop s targets val") (simp_all add: visit_Assign.simps)
next
  fix e s1
  assume n: "\<forall>t \<in> set targets. is_Name t"
    and f: "visit_Assign s (Assign targets val) = Inl (e, s1)"
  from f have "visit_Assign_loop s targets val = Inl (e, s1)"
    by (auto simp: visit_Assign.simps split: sum.splits)
  from visit_Assign_loop_raises [OF n this] show "\<exists>s0. visit s0 val = Inl (e, s1)" .
qed

theorem visit_Assign_non_name_target_witness:
  "visit_Assign SolverVisitor_init
     (Assign [Tuple [Name ''a'' Store, Name ''b'' Store] Store] (Name ''y'' Load)) =
     Inl (NotImplementedError ''Unimplemented assignment target '', SolverVisitor_init)
   \<and> visit_Assign (SolverVisitor_init\<lparr>env := [''y'' \<mapsto> Z3 (BitVec ''__arg_y'' 64)]\<rparr>)
     (Assign ([Name ''x'' Store] @ [Subscript (Name ''a'' Load) (Constant (CInt 0)) Store])
        (Name ''y'' Load)) =
     Inl (NotImplementedError ''Unimplemented assignment target '',
          SolverVisitor_init\<lparr>env := [''y'' \<mapsto> Z3 (BitVec ''__arg_y'' 64), ''x'' \<mapsto> PyNone],
                              stdout := [''assign: x'', ''name: y'']\<rparr>)"
proof -
  have 1: "visit_Assign SolverVisitor_init
     (Assign [Tuple [Name ''a'' Store, Name ''b'' Store] Store] (Name ''y'' Load)) =
     Inl (NotImplementedError ''Unimplemented assignment target '', SolverVisitor_init)"
    using visit_Assign_non_name_target [of "Tuple [Name ''a'' Store, Name ''b'' Store] Store"
          SolverVisitor_init "[]" "Name ''y'' Load"]
    by simp
  have n: "(\<forall>n \<in> set [Name ''x'' Store]. is_Name n)
           \<and> \<not> is_Name (Subscript (Name ''a'' Load) (Constant (CInt 0)) Store)"
    by simp
  have e: "visit_Assign (SolverVisitor_init\<lparr>env := [''y'' \<mapsto> Z3 (BitVec ''__arg_y'' 64)]\<rparr>)
             (Assign [Name ''x'' Store] (Name ''y'' Load)) =
           Inr (PyNone,
             SolverVisitor_init\<lparr>env := [''y'' \<mapsto> Z3 (BitVec ''__arg_y'' 64), ''x'' \<mapsto> PyNone],
                                 stdout := [''assign: x'', ''name: y'']\<rparr>)"
    by (simp add: visit_simps SolverVisitor_init_def)
  from visit_Assign_non_name_target
         [of "Subscript (Name ''a'' Load) (Constant (CInt 0)) Store"
             "SolverVisitor_init\<lparr>env := [''y'' \<mapsto> Z3 (BitVec ''__arg_y'' 64)]\<rparr>"
             "[]" "Name ''y'' Load" "[Name ''x'' Store]"] n
  have "visit_Assign (SolverVisitor_init\<lparr>env := [''y'' \<mapsto> Z3 (BitVec ''__arg_y'' 64)]\<rparr>)
     (Assign ([Name ''x'' Store] @ [Subscript (Name ''a'' Load) (Constant (CInt 0)) Store])
        (Name ''y'' Load)) =
     (case visit_Assign (SolverVisitor_init\<lparr>env := [''y'' \<mapsto> Z3 (BitVec ''__arg_y'' 64)]\<rparr>)
             (Assign [Name ''x'' Store] (Name ''y'' Load)) of
        Inl raised \<Rightarrow> Inl raised
      | Inr (r, s1) \<Rightarrow> Inl (NotImplementedError ''Unimplemented assignment target '', s1))"
    by blast
  with e have 2: "visit_Assign (SolverVisitor_init\<lparr>env := [''y'' \<mapsto> Z3 (BitVec ''__arg_y'' 64)]\<rparr>)
     (Assign ([Name ''x'' Store] @ [Subscript (Name ''a'' Load) (Constant (CInt 0)) Store])
        (Name ''y'' Load)) =
     Inl (NotImplementedError ''Unimplemented assignment target '',
          SolverVisitor_init\<lparr>env := [''y'' \<mapsto> Z3 (BitVec ''__arg_y'' 64), ''x'' \<mapsto> PyNone],
                              stdout := [''assign: x'', ''name: y'']\<rparr>)"
    by simp
  from 1 2 show ?thesis by simp
qed


section \<open>Parameters, assignments and returns\<close>

subsection \<open>Parameters\<close>




subsection \<open>Assignments\<close>

text \<open>
  Claim C3 says that after an assignment to a bare name the environment maps the name to
  a symbolic constant constrained equal to the right-hand side. For \<^verbatim>\<open>x = y\<close>, with
  \<^verbatim>\<open>y\<close> bound to a constant, the environment afterwards maps \<^verbatim>\<open>x\<close> to \<^verbatim>\<open>None\<close>,
  and the solver holds no constraint.
\<close>

theorem visit_Assign_binds_None_counterexample:
  "visit_Assign (SolverVisitor_init\<lparr>env := [''y'' \<mapsto> Z3 (BitVec ''__arg_y'' 64)]\<rparr>)
     (Assign [Name ''x'' Store] (Name ''y'' Load)) =
   Inr (PyNone,
     \<lparr>solver = \<lparr>assertions = [], timeout = Some 1000\<rparr>,
      fundecl = None, z3_args = [], z3_ret = None, z3_func = None,
      env = [''y'' \<mapsto> Z3 (BitVec ''__arg_y'' 64), ''x'' \<mapsto> PyNone],
      stdout = [''assign: x'', ''name: y'']\<rparr>)"
  by (simp add: visit_simps SolverVisitor_init_def)

lemma visit_Assign_loop_binds:
  "visit_Assign_loop s targets val = Inr s' \<Longrightarrow> fundecl s \<noteq> None \<Longrightarrow>
   Name ident ctx \<in> set targets \<Longrightarrow> env s' ident = Some PyNone"
proof (induction targets arbitrary: s)
  case Nil
  then show ?case by simp
next
  case (Cons t ts)
  from Cons.prems(1) obtain i c where t: "t = Name i c"
    by (cases t) auto
  from Cons.prems(1) t obtain r s1 where v: "visit (print s (''assign: '' @ i)) val = Inr (r, s1)"
    and l: "visit_Assign_loop (s1\<lparr>env := (env s1)(i \<mapsto> r)\<rparr>) ts val = Inr s'"
    by (auto split: sum.splits)
  from visit_returns_None [OF v] have r: "r = PyNone" .
  from visit_binds_only_None(2) [OF v] Cons.prems(2)
  have f1: "fundecl s1 \<noteq> None" by (simp add: binds_only_None_def print_def)
  then have f2: "fundecl (s1\<lparr>env := (env s1)(i \<mapsto> r)\<rparr>) \<noteq> None" by simp
  show ?case
  proof (cases "Name ident ctx \<in> set ts")
    case True
    from Cons.IH [OF l f2 True] show ?thesis .
  next
    case False
    with Cons.prems(3) t have i: "i = ident" by simp
    from visit_binds_only_None(7) [OF l] f2
    have "env s' ident = env (s1\<lparr>env := (env s1)(i \<mapsto> r)\<rparr>) ident \<or> env s' ident = Some PyNone"
      by (simp add: binds_only_None_def)
    then show ?thesis using i r by auto
  qed
qed

lemma visit_Assign_loop_visits:
  "visit_Assign_loop s targets val = Inr s' \<Longrightarrow> targets \<noteq> [] \<Longrightarrow>
   \<exists>s0 s1. visit s0 val = Inr (PyNone, s1)"
proof -
  assume a: "visit_Assign_loop s targets val = Inr s'" and n: "targets \<noteq> []"
  from n obtain t ts where tt: "targets = t # ts" by (cases targets) auto
  from a tt obtain i c where t: "t = Name i c" by (cases t) auto
  from a tt t obtain r s1 where v: "visit (print s (''assign: '' @ i)) val = Inr (r, s1)"
    by (auto split: sum.splits)
  from visit_returns_None [OF v] v show ?thesis by blast
qed

text \<open>
  Claim C3, as the code has it. An assignment takes its targets in order: for a bare name
  it visits the right-hand side, fails as that visit fails, and otherwise binds the name,
  in place of whatever it was bound to, to the value the visit returned, and goes on with
  the other targets. When the visit of an assignment succeeds, it returns \<^verbatim>\<open>None\<close>,
  every target is a bare name and is bound afterwards, no name bound before is lost and
  no constraint is added to the solver; while a function is being encoded no constant is
  allocated and each target is bound, at the end, to a value that a visit of the
  right-hand side returned.
\<close>

theorem visit_Assign_rebinds:
  "visit_Assign s (Assign [] val) = Inr (PyNone, s)
   \<and> visit_Assign s (Assign (Name ident ctx # targets) val) =
       (case visit (print s (''assign: '' @ ident)) val of
          Inl raised \<Rightarrow> Inl raised
        | Inr (r, s1) \<Rightarrow> visit_Assign (s1\<lparr>env := (env s1)(ident \<mapsto> r)\<rparr>) (Assign targets val))
   \<and> (visit_Assign s (Assign ts val) = Inr (r', s') \<longrightarrow>
        r' = PyNone
        \<and> (\<forall>t \<in> set ts. is_Name t)
        \<and> (\<forall>x c. Name x c \<in> set ts \<longrightarrow> x \<in> dom (env s'))
        \<and> dom (env s) \<subseteq> dom (env s')
        \<and> solver s' = solver s
        \<and> (fundecl s \<noteq> None \<longrightarrow>
             z3_args s' = z3_args s \<and> z3_ret s' = z3_ret s
             \<and> (\<forall>x c. Name x c \<in> set ts \<longrightarrow>
                  (\<exists>s0 r0 s1. visit s0 val = Inr (r0, s1) \<and> env s' x = Some r0))))"
proof (intro conjI impI)
  show "visit_Assign s (Assign [] val) = Inr (PyNone, s)"
    by (simp add: visit_Assign.simps)
  show "visit_Assign s (Assign (Name ident ctx # targets) val) =
       (case visit (print s (''assign: '' @ ident)) val of
          Inl raised \<Rightarrow> Inl raised
        | Inr (r, s1) \<Rightarrow> visit_Assign (s1\<lparr>env := (env s1)(ident \<mapsto> r)\<rparr>) (Assign targets val))"
    by (cases "visit (print s (''assign: '' @ ident)) val")
       (auto simp: visit_Assign.simps)
next
  assume a: "visit_Assign s (Assign ts val) = Inr (r', s')"
  then have l: "visit_Assign_loop s ts val = Inr s'" and r: "r' = PyNone"
    by (auto simp: visit_Assign.simps split: sum.splits)
  from r show "r' = PyNone" .
  from visit_Assign_loop_names [OF l] show n: "\<forall>t \<in> set ts. is_Name t" .
  from visit_dom_env(7) [OF l] show d: "dom (env s) \<subseteq> dom (env s')" .
  from visit_solver(6) [OF a] show "solver s' = solver s" .
  show "\<forall>x c. Name x c \<in> set ts \<longrightarrow> x \<in> dom (env s')"
  proof (intro allI impI)
    fix x c assume m: "Name x c \<in> set ts"
    from l m show "x \<in> dom (env s')"
    proof (induction ts arbitrary: s)
      case Nil
      then show ?case by simp
    next
      case (Cons t us)
      from Cons.prems(1) obtain i k where t: "t = Name i k" by (cases t) auto
      from Cons.prems(1) t obtain r s1 where
        l': "visit_Assign_loop (s1\<lparr>env := (env s1)(i \<mapsto> r)\<rparr>) us val = Inr s'"
        by (auto split: sum.splits)
      show ?case
      proof (cases "Name x c \<in> set us")
        case True
        from Cons.IH [OF l' True] show ?thesis .
      next
        case False
        with Cons.prems(2) t have "i = x" by simp
        with visit_dom_env(7) [OF l'] show ?thesis by auto
      qed
    qed
  qed
  assume f: "fundecl s \<noteq> None"
  from visit_keeps_function(6) [OF a] f
  show "z3_args s' = z3_args s" and "z3_ret s' = z3_ret s"
    by (simp_all add: keeps_function_def)
  show "\<forall>x c. Name x c \<in> set ts \<longrightarrow>
                  (\<exists>s0 r0 s1. visit s0 val = Inr (r0, s1) \<and> env s' x = Some r0)"
  proof (intro allI impI)
    fix x c assume m: "Name x c \<in> set ts"
    then have "ts \<noteq> []" by auto
    from visit_Assign_loop_visits [OF l this] obtain s0 s1
      where "visit s0 val = Inr (PyNone, s1)" by blast
    moreover from visit_Assign_loop_binds [OF l f m] have "env s' x = Some PyNone" .
    ultimately show "\<exists>s0 r0 s1. visit s0 val = Inr (r0, s1) \<and> env s' x = Some r0" by blast
  qed
qed


lemma visit_CODE1_enters:
  "visit_FunctionDef SolverVisitor_init CODE1 =
     (case visit_body CODE1_entered
             [Assign [Name ''x'' Store] (Constant (CInt 1)),
              Assign [Name ''y'' Store] (Constant (CInt 2)),
              Return (Some (BinOp (Name ''x'' Load) Add (Name ''y'' Load)))] of
        Inl raised \<Rightarrow> Inl raised | Inr s5 \<Rightarrow> Inr (PyNone, s5))"
  by (simp add: visit_FunctionDef.simps Let_def CODE1_def CODE1_entered_def SolverVisitor_init_def)

theorem visit_Assign_rebinds_witness:
  "env CODE1_entered ''x'' = Some (Z3 (BitVec ''__arg_x'' 64))
   \<and> visit_Assign CODE1_entered (Assign [Name ''x'' Store] (Constant (CInt 1))) =
       Inr (PyNone, CODE1_entered\<lparr>env := [''x'' \<mapsto> PyNone], stdout := [''assign: x'']\<rparr>)
   \<and> solver (CODE1_entered\<lparr>env := [''x'' \<mapsto> PyNone], stdout := [''assign: x'']\<rparr>) =
       solver CODE1_entered
   \<and> z3_args (CODE1_entered\<lparr>env := [''x'' \<mapsto> PyNone], stdout := [''assign: x'']\<rparr>) =
       z3_args CODE1_entered"
proof -
  have e: "visit_Assign CODE1_entered (Assign [Name ''x'' Store] (Constant (CInt 1))) =
       Inr (PyNone, CODE1_entered\<lparr>env := [''x'' \<mapsto> PyNone], stdout := [''assign: x'']\<rparr>)"
    by (simp add: visit_simps CODE1_entered_def)
  have f: "fundecl CODE1_entered \<noteq> None" by (simp add: CODE1_entered_def)
  have x: "env CODE1_entered ''x'' = Some (Z3 (BitVec ''__arg_x'' 64))"
    by (simp add: CODE1_entered_def)
  from visit_Assign_rebinds
         [of CODE1_entered "Constant (CInt 1)" "''x''" Store "[]" "[Name ''x'' Store]" PyNone
             "CODE1_entered\<lparr>env := [''x'' \<mapsto> PyNone], stdout := [''assign: x'']\<rparr>"] e f
  have "solver (CODE1_entered\<lparr>env := [''x'' \<mapsto> PyNone], stdout := [''assign: x'']\<rparr>) =
          solver CODE1_entered
        \<and> z3_args (CODE1_entered\<lparr>env := [''x'' \<mapsto> PyNone], stdout := [''assign: x'']\<rparr>) =
          z3_args CODE1_entered"
    by blast
  with e x show ?thesis by simp
qed

subsection \<open>Returns\<close>





subsection \<open>One visitor for each encoding\<close>






end
